theory Spec2Isabelle
  imports Main "HOL-Library.Word"
begin

section \<open>The WASM dynarec backend of the SH4 core (rec\_wasm.cpp)\<close>

text \<open>
  A shallow embedding of \<^verbatim>\<open>WasmDynarec::compile\<close> and \<^verbatim>\<open>WasmDynarec::mainloop\<close>.
  The collaborators that the translation unit only calls (the code buffer, the opcode
  tables, the memory read, the interrupt step and the exception entry) are not defined in
  it; the code buffer is modelled from the specification and the others are parameters of
  the model.
\<close>

type_synonym u16 = "16 word"
type_synonym u32 = "32 word"

subsection \<open>Code buffer and block descriptor\<close>

text \<open>
  Modelled from the spec: \<^verbatim>\<open>Sh4CodeBuffer\<close> is declared outside this translation unit. The
  specification describes it as a linear byte arena with a cursor and a remaining-capacity
  counter, from which each compiled unit is allocated, and whose allocation never wraps.
  \<open>base\<close> is the address of the first byte of the arena, \<open>cursor\<close> the number of bytes
  handed out so far and \<open>remaining\<close> the number of bytes still free. Sizes and addresses
  are natural numbers, since the specification excludes wrap-around.
\<close>

record Sh4CodeBuffer =
  base :: nat
  cursor :: nat
  remaining :: nat

text \<open>Modelled from the spec: \<^verbatim>\<open>Sh4CodeBuffer::get\<close>, the address of the next free byte.\<close>

definition get :: "Sh4CodeBuffer \<Rightarrow> nat" where
  "get buf = base buf + cursor buf"

text \<open>Modelled from the spec: \<^verbatim>\<open>Sh4CodeBuffer::getFreeSpace\<close>, the remaining capacity.\<close>

definition getFreeSpace :: "Sh4CodeBuffer \<Rightarrow> nat" where
  "getFreeSpace buf = remaining buf"

text \<open>
  Modelled from the spec: \<^verbatim>\<open>Sh4CodeBuffer::advance\<close> moves the cursor over \<open>n\<close> bytes
  and takes them from the remaining capacity. \<^verbatim>\<open>compile\<close> calls it only when
  \<open>n \<le> remaining buf\<close>, so the truncating subtraction is never reached from there.
\<close>

definition advance :: "nat \<Rightarrow> Sh4CodeBuffer \<Rightarrow> Sh4CodeBuffer" where
  "advance n buf = buf\<lparr>cursor := cursor buf + n, remaining := remaining buf - n\<rparr>"

text \<open>
  Modelled from the spec: \<^verbatim>\<open>RuntimeBlockInfo\<close> is declared outside this translation unit. The
  block descriptor carries an entry-reference field, \<^verbatim>\<open>code\<close>, the only field \<^verbatim>\<open>compile\<close>
  writes. The field is a pointer; address \<open>0\<close> stands for \<^verbatim>\<open>nullptr\<close>. \<open>addr\<close> is the guest
  address of the block.
\<close>

record RuntimeBlockInfo =
  addr :: u32
  code :: nat

text \<open>
  \<^verbatim>\<open>WasmDynarec::compile\<close> (lines 54 to 70), for a backend bound to the code buffer \<open>buf\<close>;
  the buffer after the call is returned with the block. The entry is assigned before the
  free space is looked at; the flags \<open>smc_checks\<close> and \<open>optimise\<close> are not used.
\<close>

definition compile ::
  "Sh4CodeBuffer \<Rightarrow> RuntimeBlockInfo \<Rightarrow> bool \<Rightarrow> bool \<Rightarrow> RuntimeBlockInfo \<times> Sh4CodeBuffer" where
  "compile buf block smc_checks optimise =
     (let block' = block\<lparr>code := get buf\<rparr>;
          spaceNeeded = 4
      in if getFreeSpace buf \<ge> spaceNeeded
         then (block', advance spaceNeeded buf)
         else (block', buf))"

text \<open>
  The driver compiles one block after the other against the same buffer: \<open>compile_seq\<close>
  threads the buffer through the calls, in order.
\<close>

fun compile_seq ::
  "Sh4CodeBuffer \<Rightarrow> RuntimeBlockInfo list \<Rightarrow> RuntimeBlockInfo list \<times> Sh4CodeBuffer" where
  "compile_seq buf [] = ([], buf)"
| "compile_seq buf (block # blocks) =
     (case compile buf block False False of
        (block', buf') \<Rightarrow>
          (case compile_seq buf' blocks of
             (blocks', buf'') \<Rightarrow> (block' # blocks', buf'')))"

subsection \<open>Processor context and external collaborators\<close>

text \<open>
  Modelled from the spec: \<^verbatim>\<open>Sh4Context\<close> is declared outside this translation unit. The
  record has the fields the dispatch loop itself reads or writes: the program
  counter (\<^verbatim>\<open>u32\<close>, so \<open>addr + 2\<close> wraps), the \<^verbatim>\<open>FD\<close> bit of the status register, the
  signed cycle budget and the running flag. \<open>world\<close> stands for everything else the
  external collaborators read or write (the other registers, memory, the scheduler and
  the interrupt controller). \<^verbatim>\<open>cycle_counter\<close> is a C++ \<^verbatim>\<open>int\<close>, whose overflow is
  undefined; the model takes it as an unbounded integer.
\<close>

record 'w Sh4Context =
  pc :: u32
  sr_FD :: "1 word"
  cycle_counter :: int
  CpuRunning :: bool
  world :: 'w

text \<open>
  Modelled from the spec: the exception kinds are declared outside this translation unit,
  which names one of them, \<^verbatim>\<open>Sh4Ex_FpuDisabled\<close>; the others are told apart by a number.
\<close>

datatype Sh4ExceptionCode = Sh4Ex_FpuDisabled | Sh4Ex_other nat

text \<open>
  How a call ends: it returns, it throws \<^verbatim>\<open>SH4ThrownException(epc, expEvn)\<close>, or it throws
  anything else. Each case carries the state at that moment, since what a function wrote
  before it threw stays written.
\<close>

datatype 's outcome =
  Returned 's
| SH4ThrownException u32 Sh4ExceptionCode 's
| OtherException 's

text \<open>
  The collaborators the loop calls, as parameters: the instruction read, the opcode
  descriptor's \<^verbatim>\<open>IsFloatingPoint\<close>, the semantics table \<^verbatim>\<open>OpPtr\<close> (indexed by the opcode
  and called with the context and the opcode; it may throw), the interrupt and system
  step, the exception entry, and the constant \<^verbatim>\<open>SH4_TIMESLICE\<close>. Following the
  specification, only the semantics table raises; the other collaborators return.
\<close>

record 'w externals =
  IReadMem16 :: "'w Sh4Context \<Rightarrow> u32 \<Rightarrow> u16"
  OpDesc_IsFloatingPoint :: "u16 \<Rightarrow> bool"
  OpPtr :: "u16 \<Rightarrow> 'w Sh4Context \<Rightarrow> u16 \<Rightarrow> 'w Sh4Context outcome"
  UpdateSystem_INTC :: "'w Sh4Context \<Rightarrow> 'w Sh4Context"
  Do_Exception :: "u32 \<Rightarrow> Sh4ExceptionCode \<Rightarrow> 'w Sh4Context \<Rightarrow> 'w Sh4Context"
  SH4_TIMESLICE :: int

definition CYCLES_PER_INSTRUCTION :: int where
  "CYCLES_PER_INSTRUCTION = 1"

text \<open>The local variables of \<^verbatim>\<open>mainloop\<close> (lines 95 to 97).\<close>

record mainloop_locals =
  insn_count :: u32
  timeslice_count :: u32
  exited_via_exception :: bool

type_synonym 'w loop_state = "mainloop_locals \<times> 'w Sh4Context"

subsection \<open>The dispatch loop\<close>

text \<open>
  The body of the inner loop (lines 103 to 113): one instruction. The program counter is
  written first, then the opcode is read at the old address, then the FPU check, then the
  semantics function, and only after it has returned the cycle cost and the count.
\<close>

definition dispatch_insn :: "'w externals \<Rightarrow> 'w loop_state \<Rightarrow> 'w loop_state outcome" where
  "dispatch_insn E s =
     (case s of (l, c) \<Rightarrow>
        let addr = pc c;
            c1 = c\<lparr>pc := addr + 2\<rparr>;
            op = IReadMem16 E c1 addr
        in if sr_FD c1 = 1 \<and> OpDesc_IsFloatingPoint E op
           then SH4ThrownException addr Sh4Ex_FpuDisabled (l, c1)
           else (case OpPtr E op c1 op of
                   Returned c2 \<Rightarrow>
                     Returned (l\<lparr>insn_count := insn_count l + 1\<rparr>,
                               c2\<lparr>cycle_counter := cycle_counter c2 - CYCLES_PER_INSTRUCTION\<rparr>)
                 | SH4ThrownException epc expEvn c2 \<Rightarrow> SH4ThrownException epc expEvn (l, c2)
                 | OtherException c2 \<Rightarrow> OtherException (l, c2)))"

text \<open>
  The inner \<^verbatim>\<open>do ... while (cycle_counter > 0)\<close> (lines 102 to 123). The loop need not end
  (a semantics function may refill the counter), so it runs on fuel: at most \<open>n\<close>
  instructions, and \<open>None\<close> when they do not suffice.
\<close>

fun inner_loop :: "'w externals \<Rightarrow> nat \<Rightarrow> 'w loop_state \<Rightarrow> 'w loop_state outcome option" where
  "inner_loop E 0 s = None"
| "inner_loop E (Suc n) s =
     (case dispatch_insn E s of
        Returned s' \<Rightarrow>
          if cycle_counter (snd s') > 0 then inner_loop E n s' else Some (Returned s')
      | SH4ThrownException epc expEvn s' \<Rightarrow> Some (SH4ThrownException epc expEvn s')
      | OtherException s' \<Rightarrow> Some (OtherException s'))"

text \<open>
  The \<^verbatim>\<open>try\<close> block (lines 101 to 128): the inner loop, then the rollover, which refills the
  budget, counts the timeslice and runs the interrupt and system step.
\<close>

definition timeslice :: "'w externals \<Rightarrow> nat \<Rightarrow> 'w loop_state \<Rightarrow> 'w loop_state outcome option" where
  "timeslice E n s =
     (case inner_loop E n s of
        None \<Rightarrow> None
      | Some (Returned (l, c)) \<Rightarrow>
          Some (Returned (l\<lparr>timeslice_count := timeslice_count l + 1\<rparr>,
                          UpdateSystem_INTC E (c\<lparr>cycle_counter := cycle_counter c + SH4_TIMESLICE E\<rparr>)))
      | Some (SH4ThrownException epc expEvn s') \<Rightarrow> Some (SH4ThrownException epc expEvn s')
      | Some (OtherException s') \<Rightarrow> Some (OtherException s'))"

text \<open>
  The \<^verbatim>\<open>try\<close> block with its handler (lines 101 to 133): a processor exception is handed
  to \<^verbatim>\<open>Do_Exception\<close> and the counter is adjusted by 5; any other exception passes through.
\<close>

definition outer_body :: "'w externals \<Rightarrow> nat \<Rightarrow> 'w loop_state \<Rightarrow> 'w loop_state outcome option" where
  "outer_body E n s =
     (case timeslice E n s of
        None \<Rightarrow> None
      | Some (Returned s') \<Rightarrow> Some (Returned s')
      | Some (SH4ThrownException epc expEvn (l, c)) \<Rightarrow>
          (let c1 = Do_Exception E epc expEvn c
           in Some (Returned (l, c1\<lparr>cycle_counter := cycle_counter c1 + 5\<rparr>)))
      | Some (OtherException s') \<Rightarrow> Some (OtherException s'))"

text \<open>
  The outer \<^verbatim>\<open>do ... while (CpuRunning)\<close> (lines 100 to 134), on fuel as well: at most \<open>m\<close>
  rounds, each with at most \<open>n\<close> instructions.
\<close>

fun outer_loop :: "'w externals \<Rightarrow> nat \<Rightarrow> nat \<Rightarrow> 'w loop_state \<Rightarrow> 'w loop_state outcome option" where
  "outer_loop E n 0 s = None"
| "outer_loop E n (Suc m) s =
     (case outer_body E n s of
        None \<Rightarrow> None
      | Some (Returned s') \<Rightarrow>
          if CpuRunning (snd s') then outer_loop E n m s' else Some (Returned s')
      | Some (SH4ThrownException epc expEvn s') \<Rightarrow> Some (SH4ThrownException epc expEvn s')
      | Some (OtherException s') \<Rightarrow> Some (OtherException s'))"

text \<open>
  \<^verbatim>\<open>WasmDynarec::mainloop\<close> (lines 72 to 151), for a backend bound to the context \<open>c\<close>: the
  locals start at zero, whatever escapes the outer loop is caught by \<^verbatim>\<open>catch (...)\<close>, and
  the running flag is cleared at the end. The assignment to \<^verbatim>\<open>Sh4Interpreter::Instance\<close>
  and the console output are left out. \<open>None\<close> means that the fuel did not suffice.
\<close>

definition mainloop :: "'w externals \<Rightarrow> nat \<Rightarrow> 'w Sh4Context \<Rightarrow> 'w loop_state option" where
  "mainloop E n c =
     (case outer_loop E n n
             (\<lparr>insn_count = 0, timeslice_count = 0, exited_via_exception = False\<rparr>, c) of
        None \<Rightarrow> None
      | Some (Returned (l, c')) \<Rightarrow> Some (l, c'\<lparr>CpuRunning := False\<rparr>)
      | Some (SH4ThrownException epc expEvn (l, c')) \<Rightarrow>
          Some (l\<lparr>exited_via_exception := True\<rparr>, c'\<lparr>CpuRunning := False\<rparr>)
      | Some (OtherException (l, c')) \<Rightarrow>
          Some (l\<lparr>exited_via_exception := True\<rparr>, c'\<lparr>CpuRunning := False\<rparr>))"

text \<open>
  The state after \<open>k\<close> dispatched instructions of which each returned (none raised) and
  each lowered the cycle counter by exactly one: the first \<open>k\<close> rounds of the inner loop's
  body, without the loop test. \<open>None\<close> when an instruction throws or costs otherwise.
\<close>

fun dispatched :: "'w externals \<Rightarrow> nat \<Rightarrow> 'w loop_state \<Rightarrow> 'w loop_state option" where
  "dispatched E 0 s = Some s"
| "dispatched E (Suc k) s =
     (case dispatch_insn E s of
        Returned s' \<Rightarrow>
          if cycle_counter (snd s') = cycle_counter (snd s) - 1 then dispatched E k s' else None
      | SH4ThrownException epc expEvn s' \<Rightarrow> None
      | OtherException s' \<Rightarrow> None)"

subsection \<open>Concrete inputs\<close>

text \<open>
  A code buffer with no room left (four bytes were handed out, none remain), one with 10
  bytes free, and two block descriptors whose entry is still \<^verbatim>\<open>nullptr\<close>.
\<close>

definition full_buffer :: Sh4CodeBuffer where
  "full_buffer = \<lparr>base = 4096, cursor = 4, remaining = 0\<rparr>"

definition roomy_buffer :: Sh4CodeBuffer where
  "roomy_buffer = \<lparr>base = 4096, cursor = 0, remaining = 10\<rparr>"

definition block1 :: RuntimeBlockInfo where
  "block1 = \<lparr>addr = 0x8C000000, code = 0\<rparr>"

definition block2 :: RuntimeBlockInfo where
  "block2 = \<lparr>addr = 0x8C000100, code = 0\<rparr>"

text \<open>
  A small machine for running the loop: its world counts the writes to floating-point
  state and the runs of the interrupt step. Memory holds \<^verbatim>\<open>NOP\<close> (\<open>0x0009\<close>) everywhere,
  except \<^verbatim>\<open>SLEEP\<close> (\<open>0x001B\<close>, which here clears the running flag) at \<open>0x8C000030\<close>, a
  floating-point opcode (\<open>0xF00C\<close>) at \<open>0x8C000032\<close> and an undefined opcode (\<open>0x00FF\<close>,
  whose semantics throws) at \<open>0x8C000060\<close>. The exception entry jumps to \<open>0x8C000100\<close>
  and the timeslice is 448 cycles.
\<close>

record demo_world =
  fpu_writes :: nat
  intc_updates :: nat

definition demo_env :: "demo_world externals" where
  "demo_env =
     \<lparr>IReadMem16 = (\<lambda>c a. if a = 0x8C000030 then 0x001B
                          else if a = 0x8C000032 then 0xF00C
                          else if a = 0x8C000060 then 0x00FF
                          else 0x0009),
      OpDesc_IsFloatingPoint = (\<lambda>op. 0xF000 \<le> op),
      OpPtr = (\<lambda>i c op.
                 if 0xF000 \<le> op
                 then Returned (c\<lparr>world := (world c)\<lparr>fpu_writes := fpu_writes (world c) + 1\<rparr>\<rparr>)
                 else if op = 0x001B then Returned (c\<lparr>CpuRunning := False\<rparr>)
                 else if op = 0x00FF then SH4ThrownException (pc c - 2) (Sh4Ex_other 0x180) c
                 else Returned c),
      UpdateSystem_INTC =
        (\<lambda>c. c\<lparr>world := (world c)\<lparr>intc_updates := intc_updates (world c) + 1\<rparr>\<rparr>),
      Do_Exception = (\<lambda>epc expEvn c. c\<lparr>pc := 0x8C000100\<rparr>),
      SH4_TIMESLICE = 448\<rparr>"

text \<open>The same machine with a semantics table that never throws and changes nothing.\<close>

definition nop_env :: "demo_world externals" where
  "nop_env = demo_env\<lparr>OpPtr := (\<lambda>i c op. Returned c)\<rparr>"

text \<open>A context with a budget of 10 cycles, and the locals as \<^verbatim>\<open>mainloop\<close> initialises them.\<close>

definition demo_ctx :: "demo_world Sh4Context" where
  "demo_ctx =
     \<lparr>pc = 0x8C000000, sr_FD = 0, cycle_counter = 10, CpuRunning = True,
      world = \<lparr>fpu_writes = 0, intc_updates = 0\<rparr>\<rparr>"

definition locals0 :: mainloop_locals where
  "locals0 = \<lparr>insn_count = 0, timeslice_count = 0, exited_via_exception = False\<rparr>"

text \<open>
  A semantics table that agrees with the one of \<open>demo_env\<close> on the contexts whose program
  counter is \<open>0x8C000002\<close>, and throws on every other context.
\<close>

definition picky_OpPtr :: "u16 \<Rightarrow> demo_world Sh4Context \<Rightarrow> u16 \<Rightarrow> demo_world Sh4Context outcome" where
  "picky_OpPtr i c op = (if pc c = 0x8C000002 then OpPtr demo_env i c op else OtherException c)"

text \<open>
  A context whose first instruction is \<^verbatim>\<open>SLEEP\<close> and whose second is the floating-point
  opcode, with the FPU disabled and 100 cycles left; and the state in which the loop
  leaves it.
\<close>

definition halt_ctx :: "demo_world Sh4Context" where
  "halt_ctx = demo_ctx\<lparr>pc := 0x8C000030, sr_FD := 1, cycle_counter := 100\<rparr>"

definition halt_exit :: "demo_world loop_state" where
  "halt_exit =
     (\<lparr>insn_count = 1, timeslice_count = 0, exited_via_exception = False\<rparr>,
      \<lparr>pc = 0x8C000100, sr_FD = 1, cycle_counter = 104, CpuRunning = False,
       world = \<lparr>fpu_writes = 0, intc_updates = 0\<rparr>\<rparr>)"

text \<open>Contexts that start at the floating-point opcode with the FPU disabled, and at the undefined opcode.\<close>

definition fpu_ctx :: "demo_world Sh4Context" where
  "fpu_ctx = demo_ctx\<lparr>pc := 0x8C000032, sr_FD := 1\<rparr>"

definition undef_ctx :: "demo_world Sh4Context" where
  "undef_ctx = demo_ctx\<lparr>pc := 0x8C000060\<rparr>"

section \<open>Properties of \<^verbatim>\<open>compile\<close>\<close>

text \<open>What one call does, with the two cases of the guard side by side.\<close>

lemma compile_cases:
  "compile buf block smc opt =
     (block\<lparr>code := get buf\<rparr>, if 4 \<le> getFreeSpace buf then advance 4 buf else buf)"
  by (simp add: compile_def Let_def)

lemma snd_compile_seq_step:
  "snd (compile_seq buf (b # bs)) =
     snd (compile_seq (if 4 \<le> remaining buf then advance 4 buf else buf) bs)"
  by (simp add: compile_cases getFreeSpace_def split: prod.splits)

lemma compile_seq_buffer:
  "snd (compile_seq buf blocks) =
     buf\<lparr>cursor := cursor buf + 4 * min (length blocks) (remaining buf div 4),
         remaining := remaining buf - 4 * min (length blocks) (remaining buf div 4)\<rparr>"
proof (induction blocks arbitrary: buf)
  case Nil
  then show ?case by simp
next
  case (Cons b bs)
  show ?case
  proof (cases "4 \<le> remaining buf")
    case True
    then have m: "min (Suc (length bs)) (remaining buf div 4) =
        Suc (min (length bs) ((remaining buf - 4) div 4))"
      by (simp add: min_def) arith
    have "snd (compile_seq buf (b # bs)) = snd (compile_seq (advance 4 buf) bs)"
      using True by (simp only: snd_compile_seq_step if_True)
    also have "\<dots> = (advance 4 buf)\<lparr>cursor := cursor (advance 4 buf) +
          4 * min (length bs) (remaining (advance 4 buf) div 4),
        remaining := remaining (advance 4 buf) -
          4 * min (length bs) (remaining (advance 4 buf) div 4)\<rparr>"
      by (rule Cons.IH)
    finally show ?thesis
      by (simp add: advance_def m)
  next
    case False
    then have z: "remaining buf div 4 = 0" by simp
    have "snd (compile_seq buf (b # bs)) = snd (compile_seq buf bs)"
      using False by (simp only: snd_compile_seq_step if_False)
    then show ?thesis
      by (simp add: Cons.IH z)
  qed
qed

text \<open>
  Claim C1 says that a call which finds too little free space is a no-op: the free space
  is unchanged and the block's entry is left unset. The code leaves the buffer alone but
  writes the entry, since the assignment on line 63 is not under the guard of line 68: on
  the full buffer the entry of \<open>block2\<close> goes from \<^verbatim>\<open>nullptr\<close> to 4100, which is the address
  one past the end of the arena (\<open>base + cursor + remaining\<close>), where the comments on lines
  57 to 58 and 65 to 66 ask for a valid entry in the code buffer at a unique address.
\<close>

theorem compile_full_sets_entry:
  "getFreeSpace full_buffer < 4 \<and> code block2 = 0 \<and>
   compile full_buffer block2 False False = (block2\<lparr>code := 4100\<rparr>, full_buffer) \<and>
   base full_buffer + cursor full_buffer + remaining full_buffer = 4100"
  by (simp add: compile_cases full_buffer_def block2_def getFreeSpace_def get_def)

text \<open>
  With room for both units, two consecutive calls give entries 4 bytes apart, with
  disjoint extents that both lie inside the arena.
\<close>

lemma compile_twice_with_room:
  assumes "8 \<le> getFreeSpace buf"
    and "compile buf b1 s1 o1 = (b1', buf')"
    and "compile buf' b2 s2 o2 = (b2', buf'')"
  shows "code b2' = code b1' + 4 \<and> code b1' \<noteq> code b2' \<and>
         {code b1' ..< code b1' + 4} \<inter> {code b2' ..< code b2' + 4} = {} \<and>
         base buf + cursor buf \<le> code b1' \<and>
         code b2' + 4 \<le> base buf + cursor buf + getFreeSpace buf"
  using assms by (auto simp: compile_cases getFreeSpace_def get_def advance_def split: if_splits)

text \<open>
  Claim C2 says that two units compiled back to back receive distinct, non-overlapping
  entry addresses. On the full buffer both calls skip the allocation and both blocks
  receive the entry 4100, against the comment on lines 65 to 66, which wants a unique
  address for each block: the same defect as the one under claim C1.
\<close>

theorem compile_full_aliases:
  "code (fst (compile full_buffer block1 False False)) = 4100 \<and>
   code (fst (compile (snd (compile full_buffer block1 False False)) block2 False False)) = 4100 \<and>
   \<not> (code (fst (compile full_buffer block1 False False)) \<noteq>
      code (fst (compile (snd (compile full_buffer block1 False False)) block2 False False)))"
  by (simp add: compile_cases full_buffer_def getFreeSpace_def get_def)

text \<open>
  Claim C9. \<open>N\<close> calls of \<^verbatim>\<open>compile\<close> (the unit size is the constant 4) move the cursor by
  exactly \<open>4 * N\<close> when the free space suffices for every call; once fewer than 4 bytes are
  free, further calls leave the buffer as it is; in general the cursor moves by 4 for each
  call that found room, whole units only. Cursor plus free space stays constant, so the
  cursor never passes the end of the buffer.
\<close>

theorem compile_seq_accounting:
  assumes "compile_seq buf blocks = (blocks', buf')"
  shows "(4 * length blocks \<le> getFreeSpace buf \<longrightarrow>
            cursor buf' = cursor buf + 4 * length blocks \<and>
            getFreeSpace buf' = getFreeSpace buf - 4 * length blocks) \<and>
         (getFreeSpace buf < 4 \<longrightarrow> buf' = buf) \<and>
         cursor buf' = cursor buf + 4 * min (length blocks) (getFreeSpace buf div 4) \<and>
         cursor buf' + getFreeSpace buf' = cursor buf + getFreeSpace buf"
proof -
  have b: "buf' = snd (compile_seq buf blocks)" using assms by simp
  have le: "4 * min (length blocks) (remaining buf div 4) \<le> remaining buf"
    by (simp add: min_def) arith
  have m: "4 * length blocks \<le> remaining buf \<Longrightarrow> min (length blocks) (remaining buf div 4) = length blocks"
    by (simp add: min_def) arith
  show ?thesis unfolding b compile_seq_buffer getFreeSpace_def
    using le m by auto
qed

theorem compile_seq_accounting_witness:
  "compile_seq roomy_buffer [block1, block2, block1] =
     ([block1\<lparr>code := 4096\<rparr>, block2\<lparr>code := 4100\<rparr>, block1\<lparr>code := 4104\<rparr>],
      \<lparr>base = 4096, cursor = 8, remaining = 2\<rparr>) \<and>
   4 * length [block1, block2] \<le> getFreeSpace roomy_buffer \<and>
   getFreeSpace \<lparr>base = 4096, cursor = 8, remaining = 2\<rparr> < 4 \<and>
   cursor \<lparr>base = 4096, cursor = 8, remaining = 2\<rparr> =
     cursor roomy_buffer + 4 * min (length [block1, block2, block1]) (getFreeSpace roomy_buffer div 4) \<and>
   cursor \<lparr>base = 4096, cursor = 8, remaining = 2\<rparr> +
     getFreeSpace \<lparr>base = 4096, cursor = 8, remaining = 2\<rparr> =
     cursor roomy_buffer + getFreeSpace roomy_buffer \<and>
   snd (compile_seq roomy_buffer [block1, block2]) =
     \<lparr>base = 4096, cursor = 8, remaining = 2\<rparr> \<and>
   cursor (snd (compile_seq roomy_buffer [block1, block2])) =
     cursor roomy_buffer + 4 * length [block1, block2] \<and>
   snd (compile_seq \<lparr>base = 4096, cursor = 8, remaining = 2\<rparr> [block1]) =
     \<lparr>base = 4096, cursor = 8, remaining = 2\<rparr>"
proof -
  have h1: "compile_seq roomy_buffer [block1, block2, block1] =
     ([block1\<lparr>code := 4096\<rparr>, block2\<lparr>code := 4100\<rparr>, block1\<lparr>code := 4104\<rparr>],
      \<lparr>base = 4096, cursor = 8, remaining = 2\<rparr>)"
    by (simp add: compile_cases getFreeSpace_def get_def advance_def roomy_buffer_def)
  have h2: "compile_seq roomy_buffer [block1, block2] =
     ([block1\<lparr>code := 4096\<rparr>, block2\<lparr>code := 4100\<rparr>],
      \<lparr>base = 4096, cursor = 8, remaining = 2\<rparr>)"
    by (simp add: compile_cases getFreeSpace_def get_def advance_def roomy_buffer_def)
  have h3: "compile_seq \<lparr>base = 4096, cursor = 8, remaining = 2\<rparr> [block1] =
     ([block1\<lparr>code := 4104\<rparr>], \<lparr>base = 4096, cursor = 8, remaining = 2\<rparr>)"
    by (simp add: compile_cases getFreeSpace_def get_def advance_def)
  have g1: "4 * length [block1, block2] \<le> getFreeSpace roomy_buffer"
    by (simp add: getFreeSpace_def roomy_buffer_def)
  have g2: "getFreeSpace \<lparr>base = 4096, cursor = 8, remaining = 2\<rparr> < 4"
    by (simp add: getFreeSpace_def)
  from compile_seq_accounting [OF h1] compile_seq_accounting [OF h2]
    compile_seq_accounting [OF h3] h1 h2 h3 g1 g2
  show ?thesis by simp
qed

section \<open>Properties of the dispatch loop\<close>

subsection \<open>Fuel\<close>

text \<open>
  More fuel never changes a result: once a loop has returned within \<open>n\<close> instructions per
  timeslice and \<open>m\<close> rounds, it returns the same with any larger bounds. So a result
  \<open>Some r\<close> is the result of the loop itself.
\<close>

lemma inner_loop_fuel:
  "inner_loop E n s = Some r \<Longrightarrow> inner_loop E (n + k) s = Some r"
proof (induction n arbitrary: s)
  case 0
  then show ?case by simp
next
  case (Suc n)
  then show ?case
    by (auto split: outcome.splits if_splits)
qed

lemma timeslice_fuel:
  "timeslice E n s = Some r \<Longrightarrow> timeslice E (n + k) s = Some r"
proof -
  assume a: "timeslice E n s = Some r"
  then obtain r0 where r0: "inner_loop E n s = Some r0"
    by (cases "inner_loop E n s") (auto simp: timeslice_def)
  from inner_loop_fuel [OF r0, of k] a r0 show ?thesis
    by (simp add: timeslice_def)
qed

lemma outer_body_fuel:
  "outer_body E n s = Some r \<Longrightarrow> outer_body E (n + k) s = Some r"
proof -
  assume a: "outer_body E n s = Some r"
  then obtain r0 where r0: "timeslice E n s = Some r0"
    by (cases "timeslice E n s") (auto simp: outer_body_def)
  from timeslice_fuel [OF r0, of k] a r0 show ?thesis
    by (simp add: outer_body_def)
qed

lemma outer_loop_fuel:
  "outer_loop E n m s = Some r \<Longrightarrow> outer_loop E (n + k) (m + j) s = Some r"
proof (induction m arbitrary: s)
  case 0
  then show ?case by simp
next
  case (Suc m)
  from Suc.prems obtain r0 where r0: "outer_body E n s = Some r0"
    by (cases "outer_body E n s") auto
  from outer_body_fuel [OF r0, of k] have r1: "outer_body E (n + k) s = Some r0" .
  show ?case
  proof (cases r0)
    case (Returned t)
    show ?thesis
    proof (cases "CpuRunning (snd t)")
      case True
      with Suc.prems r0 Returned have "outer_loop E n m t = Some r" by simp
      from Suc.IH [OF this] True r1 Returned show ?thesis by simp
    next
      case False
      with Suc.prems r0 Returned have "r = Returned t" by simp
      with False r1 Returned show ?thesis by simp
    qed
  next
    case (SH4ThrownException epc expEvn t)
    with Suc.prems r0 have "r = SH4ThrownException epc expEvn t" by simp
    with r1 SH4ThrownException show ?thesis by simp
  next
    case (OtherException t)
    with Suc.prems r0 have "r = OtherException t" by simp
    with r1 OtherException show ?thesis by simp
  qed
qed

lemma mainloop_fuel:
  "mainloop E n c = Some r \<Longrightarrow> mainloop E (n + k) c = Some r"
proof -
  let ?s = "(\<lparr>insn_count = 0, timeslice_count = 0, exited_via_exception = False\<rparr>, c)"
  assume a: "mainloop E n c = Some r"
  then obtain r0 where r0: "outer_loop E n n ?s = Some r0"
    by (cases "outer_loop E n n ?s") (auto simp: mainloop_def)
  from outer_loop_fuel [OF r0, of k k] a r0 show ?thesis
    by (simp add: mainloop_def)
qed

subsection \<open>One instruction\<close>

text \<open>With the FPU disabled, a floating-point opcode ends the instruction in the throw.\<close>

lemma dispatch_insn_fpu_disabled:
  assumes "sr_FD c = 1"
    and "OpDesc_IsFloatingPoint E (IReadMem16 E (c\<lparr>pc := pc c + 2\<rparr>) (pc c))"
  shows "dispatch_insn E (l, c) =
           SH4ThrownException (pc c) Sh4Ex_FpuDisabled (l, c\<lparr>pc := pc c + 2\<rparr>)"
  using assms by (simp add: dispatch_insn_def Let_def)

text \<open>
  A processor exception that ends the inner loop skips the rollover and is handled in the
  same round: the exception entry runs once on the state at the throw, and 5 is added to
  the counter it leaves.
\<close>

lemma outer_body_thrown:
  assumes "inner_loop E n s = Some (SH4ThrownException epc expEvn (l, c))"
  shows "outer_body E n s =
           Some (Returned (l, (Do_Exception E epc expEvn c)
                   \<lparr>cycle_counter := cycle_counter (Do_Exception E epc expEvn c) + 5\<rparr>))"
  using assms by (simp add: outer_body_def timeslice_def Let_def)

text \<open>
  Claim C6. For every dispatched instruction: when the FD flag is set and the opcode read
  at the program counter is a floating-point operation, the instruction ends in the
  FPU-disabled exception carrying the instruction's own address. The semantics table is
  not consulted (any other table gives the same result), the state at the throw differs
  from the state before only in the program counter, so nothing of the other state is
  mutated, and the round hands exactly this exception to the exception entry.
\<close>

theorem fpu_disabled_raises:
  assumes "sr_FD c = 1"
    and "OpDesc_IsFloatingPoint E (IReadMem16 E (c\<lparr>pc := pc c + 2\<rparr>) (pc c))"
  shows "dispatch_insn E (l, c) =
           SH4ThrownException (pc c) Sh4Ex_FpuDisabled (l, c\<lparr>pc := pc c + 2\<rparr>) \<and>
         dispatch_insn (E\<lparr>OpPtr := f\<rparr>) (l, c) = dispatch_insn E (l, c) \<and>
         world (c\<lparr>pc := pc c + 2\<rparr>) = world c \<and>
         outer_body E (Suc n) (l, c) =
           Some (Returned (l, (Do_Exception E (pc c) Sh4Ex_FpuDisabled (c\<lparr>pc := pc c + 2\<rparr>))
                   \<lparr>cycle_counter :=
                      cycle_counter (Do_Exception E (pc c) Sh4Ex_FpuDisabled (c\<lparr>pc := pc c + 2\<rparr>)) + 5\<rparr>))"
proof -
  have d: "dispatch_insn E (l, c) =
      SH4ThrownException (pc c) Sh4Ex_FpuDisabled (l, c\<lparr>pc := pc c + 2\<rparr>)"
    using assms by (rule dispatch_insn_fpu_disabled)
  have d': "dispatch_insn (E\<lparr>OpPtr := f\<rparr>) (l, c) =
      SH4ThrownException (pc c) Sh4Ex_FpuDisabled (l, c\<lparr>pc := pc c + 2\<rparr>)"
    using assms by (simp add: dispatch_insn_def Let_def)
  have i: "inner_loop E (Suc n) (l, c) =
      Some (SH4ThrownException (pc c) Sh4Ex_FpuDisabled (l, c\<lparr>pc := pc c + 2\<rparr>))"
    by (simp add: d)
  show ?thesis
    using d d' outer_body_thrown [OF i] by simp
qed

theorem fpu_disabled_raises_witness:
  "sr_FD fpu_ctx = 1 \<and>
   OpDesc_IsFloatingPoint demo_env (IReadMem16 demo_env (fpu_ctx\<lparr>pc := pc fpu_ctx + 2\<rparr>) (pc fpu_ctx)) \<and>
   dispatch_insn demo_env (locals0, fpu_ctx) =
     SH4ThrownException (pc fpu_ctx) Sh4Ex_FpuDisabled (locals0, fpu_ctx\<lparr>pc := pc fpu_ctx + 2\<rparr>) \<and>
   dispatch_insn (demo_env\<lparr>OpPtr := OpPtr nop_env\<rparr>) (locals0, fpu_ctx) =
     dispatch_insn demo_env (locals0, fpu_ctx) \<and>
   world (fpu_ctx\<lparr>pc := pc fpu_ctx + 2\<rparr>) = world fpu_ctx \<and>
   outer_body demo_env (Suc 0) (locals0, fpu_ctx) =
     Some (Returned (locals0,
       (Do_Exception demo_env (pc fpu_ctx) Sh4Ex_FpuDisabled (fpu_ctx\<lparr>pc := pc fpu_ctx + 2\<rparr>))
         \<lparr>cycle_counter :=
            cycle_counter (Do_Exception demo_env (pc fpu_ctx) Sh4Ex_FpuDisabled
              (fpu_ctx\<lparr>pc := pc fpu_ctx + 2\<rparr>)) + 5\<rparr>))"
proof -
  have h1: "sr_FD fpu_ctx = 1"
    by (simp add: fpu_ctx_def)
  have h2: "OpDesc_IsFloatingPoint demo_env
      (IReadMem16 demo_env (fpu_ctx\<lparr>pc := pc fpu_ctx + 2\<rparr>) (pc fpu_ctx))"
    by (simp add: fpu_ctx_def demo_env_def)
  from fpu_disabled_raises [OF h1 h2, where l = locals0 and f = "OpPtr nop_env" and n = 0] h1 h2
  show ?thesis by blast
qed

text \<open>
  Claim C7. For every dispatched instruction, the semantics function is called on a
  context whose program counter is already the address of the following instruction:
  replacing the semantics table by any table that agrees with it on the contexts whose
  program counter is \<open>pc c + 2\<close> does not change the result of the instruction; and when
  the FPU check passes, the result is that of the semantics function applied to the
  context with the program counter advanced.
\<close>

theorem semantics_sees_next_pc:
  assumes "\<And>i c1 op. pc c1 = pc c + 2 \<Longrightarrow> f i c1 op = OpPtr E i c1 op"
  shows "dispatch_insn (E\<lparr>OpPtr := f\<rparr>) (l, c) = dispatch_insn E (l, c) \<and>
         (\<not> (sr_FD c = 1 \<and> OpDesc_IsFloatingPoint E (IReadMem16 E (c\<lparr>pc := pc c + 2\<rparr>) (pc c))) \<longrightarrow>
            dispatch_insn E (l, c) =
              (case OpPtr E (IReadMem16 E (c\<lparr>pc := pc c + 2\<rparr>) (pc c)) (c\<lparr>pc := pc c + 2\<rparr>)
                      (IReadMem16 E (c\<lparr>pc := pc c + 2\<rparr>) (pc c)) of
                 Returned c2 \<Rightarrow>
                   Returned (l\<lparr>insn_count := insn_count l + 1\<rparr>,
                             c2\<lparr>cycle_counter := cycle_counter c2 - CYCLES_PER_INSTRUCTION\<rparr>)
               | SH4ThrownException epc expEvn c2 \<Rightarrow> SH4ThrownException epc expEvn (l, c2)
               | OtherException c2 \<Rightarrow> OtherException (l, c2)))"
proof -
  have "f i (c\<lparr>pc := pc c + 2\<rparr>) op = OpPtr E i (c\<lparr>pc := pc c + 2\<rparr>) op" for i op
    by (rule assms) simp
  then show ?thesis
    by (simp add: dispatch_insn_def Let_def)
qed

theorem semantics_sees_next_pc_witness:
  "\<not> (sr_FD demo_ctx = 1 \<and>
      OpDesc_IsFloatingPoint demo_env (IReadMem16 demo_env (demo_ctx\<lparr>pc := pc demo_ctx + 2\<rparr>) (pc demo_ctx))) \<and>
   dispatch_insn (demo_env\<lparr>OpPtr := picky_OpPtr\<rparr>) (locals0, demo_ctx) =
     dispatch_insn demo_env (locals0, demo_ctx) \<and>
   dispatch_insn demo_env (locals0, demo_ctx) =
     (case OpPtr demo_env (IReadMem16 demo_env (demo_ctx\<lparr>pc := pc demo_ctx + 2\<rparr>) (pc demo_ctx))
             (demo_ctx\<lparr>pc := pc demo_ctx + 2\<rparr>)
             (IReadMem16 demo_env (demo_ctx\<lparr>pc := pc demo_ctx + 2\<rparr>) (pc demo_ctx)) of
        Returned c2 \<Rightarrow>
          Returned (locals0\<lparr>insn_count := insn_count locals0 + 1\<rparr>,
                    c2\<lparr>cycle_counter := cycle_counter c2 - CYCLES_PER_INSTRUCTION\<rparr>)
      | SH4ThrownException epc expEvn c2 \<Rightarrow> SH4ThrownException epc expEvn (locals0, c2)
      | OtherException c2 \<Rightarrow> OtherException (locals0, c2))"
proof -
  have h: "pc c1 = pc demo_ctx + 2 \<Longrightarrow> picky_OpPtr i c1 op = OpPtr demo_env i c1 op" for i c1 op
    by (simp add: picky_OpPtr_def demo_ctx_def)
  have nf: "\<not> (sr_FD demo_ctx = 1 \<and>
      OpDesc_IsFloatingPoint demo_env
        (IReadMem16 demo_env (demo_ctx\<lparr>pc := pc demo_ctx + 2\<rparr>) (pc demo_ctx)))"
    by (simp add: demo_ctx_def)
  from semantics_sees_next_pc [of demo_ctx picky_OpPtr demo_env locals0, OF h] nf
  show ?thesis by blast
qed

text \<open>
  Claim C10. When the semantics function of an instruction throws a processor exception,
  the instruction ends in that exception with the state the semantics function left: the
  cycle cost is not subtracted and the instruction is not counted. Whenever the inner
  loop ends with this throw, the round returns the state of the exception entry with 5
  added to its counter, and nothing else; in particular when the faulting instruction is
  the first of the round.
\<close>

theorem faulting_insn_not_charged:
  assumes "\<not> (sr_FD c = 1 \<and> OpDesc_IsFloatingPoint E (IReadMem16 E (c\<lparr>pc := pc c + 2\<rparr>) (pc c)))"
    and "OpPtr E (IReadMem16 E (c\<lparr>pc := pc c + 2\<rparr>) (pc c)) (c\<lparr>pc := pc c + 2\<rparr>)
           (IReadMem16 E (c\<lparr>pc := pc c + 2\<rparr>) (pc c)) = SH4ThrownException epc expEvn c2"
  shows "dispatch_insn E (l, c) = SH4ThrownException epc expEvn (l, c2) \<and>
         (inner_loop E n s = Some (dispatch_insn E (l, c)) \<longrightarrow>
            outer_body E n s =
              Some (Returned (l, (Do_Exception E epc expEvn c2)
                      \<lparr>cycle_counter := cycle_counter (Do_Exception E epc expEvn c2) + 5\<rparr>))) \<and>
         outer_body E (Suc k) (l, c) =
           Some (Returned (l, (Do_Exception E epc expEvn c2)
                   \<lparr>cycle_counter := cycle_counter (Do_Exception E epc expEvn c2) + 5\<rparr>))"
proof -
  have d: "dispatch_insn E (l, c) = SH4ThrownException epc expEvn (l, c2)"
    using assms by (auto simp: dispatch_insn_def Let_def)
  have i: "inner_loop E (Suc k) (l, c) = Some (SH4ThrownException epc expEvn (l, c2))"
    by (simp add: d)
  show ?thesis
    using d outer_body_thrown [OF i] outer_body_thrown [of E n s epc expEvn l c2] by simp
qed

theorem faulting_insn_not_charged_witness:
  "\<not> (sr_FD (undef_ctx\<lparr>cycle_counter := 8\<rparr>) = 1 \<and>
      OpDesc_IsFloatingPoint demo_env
        (IReadMem16 demo_env ((undef_ctx\<lparr>cycle_counter := 8\<rparr>)\<lparr>pc := pc (undef_ctx\<lparr>cycle_counter := 8\<rparr>) + 2\<rparr>)
           (pc (undef_ctx\<lparr>cycle_counter := 8\<rparr>)))) \<and>
   OpPtr demo_env
     (IReadMem16 demo_env ((undef_ctx\<lparr>cycle_counter := 8\<rparr>)\<lparr>pc := pc (undef_ctx\<lparr>cycle_counter := 8\<rparr>) + 2\<rparr>)
        (pc (undef_ctx\<lparr>cycle_counter := 8\<rparr>)))
     ((undef_ctx\<lparr>cycle_counter := 8\<rparr>)\<lparr>pc := pc (undef_ctx\<lparr>cycle_counter := 8\<rparr>) + 2\<rparr>)
     (IReadMem16 demo_env ((undef_ctx\<lparr>cycle_counter := 8\<rparr>)\<lparr>pc := pc (undef_ctx\<lparr>cycle_counter := 8\<rparr>) + 2\<rparr>)
        (pc (undef_ctx\<lparr>cycle_counter := 8\<rparr>))) =
     SH4ThrownException 0x8C000060 (Sh4Ex_other 0x180)
       (undef_ctx\<lparr>pc := 0x8C000062, cycle_counter := 8\<rparr>) \<and>
   inner_loop demo_env 3 (locals0, demo_ctx\<lparr>pc := 0x8C00005C\<rparr>) =
     Some (dispatch_insn demo_env (locals0\<lparr>insn_count := 2\<rparr>, undef_ctx\<lparr>cycle_counter := 8\<rparr>)) \<and>
   dispatch_insn demo_env (locals0\<lparr>insn_count := 2\<rparr>, undef_ctx\<lparr>cycle_counter := 8\<rparr>) =
     SH4ThrownException 0x8C000060 (Sh4Ex_other 0x180)
       (locals0\<lparr>insn_count := 2\<rparr>, undef_ctx\<lparr>pc := 0x8C000062, cycle_counter := 8\<rparr>) \<and>
   outer_body demo_env 3 (locals0, demo_ctx\<lparr>pc := 0x8C00005C\<rparr>) =
     Some (Returned (locals0\<lparr>insn_count := 2\<rparr>,
       (Do_Exception demo_env 0x8C000060 (Sh4Ex_other 0x180)
          (undef_ctx\<lparr>pc := 0x8C000062, cycle_counter := 8\<rparr>))
         \<lparr>cycle_counter :=
            cycle_counter (Do_Exception demo_env 0x8C000060 (Sh4Ex_other 0x180)
              (undef_ctx\<lparr>pc := 0x8C000062, cycle_counter := 8\<rparr>)) + 5\<rparr>)) \<and>
   outer_body demo_env (Suc 0) (locals0\<lparr>insn_count := 2\<rparr>, undef_ctx\<lparr>cycle_counter := 8\<rparr>) =
     Some (Returned (locals0\<lparr>insn_count := 2\<rparr>,
       (Do_Exception demo_env 0x8C000060 (Sh4Ex_other 0x180)
          (undef_ctx\<lparr>pc := 0x8C000062, cycle_counter := 8\<rparr>))
         \<lparr>cycle_counter :=
            cycle_counter (Do_Exception demo_env 0x8C000060 (Sh4Ex_other 0x180)
              (undef_ctx\<lparr>pc := 0x8C000062, cycle_counter := 8\<rparr>)) + 5\<rparr>))"
proof -
  let ?c = "undef_ctx\<lparr>cycle_counter := 8\<rparr>"
  let ?l = "locals0\<lparr>insn_count := 2\<rparr>"
  have h1: "\<not> (sr_FD ?c = 1 \<and>
      OpDesc_IsFloatingPoint demo_env (IReadMem16 demo_env (?c\<lparr>pc := pc ?c + 2\<rparr>) (pc ?c)))"
    by code_simp
  have h2: "OpPtr demo_env (IReadMem16 demo_env (?c\<lparr>pc := pc ?c + 2\<rparr>) (pc ?c))
      (?c\<lparr>pc := pc ?c + 2\<rparr>) (IReadMem16 demo_env (?c\<lparr>pc := pc ?c + 2\<rparr>) (pc ?c)) =
     SH4ThrownException 0x8C000060 (Sh4Ex_other 0x180)
       (undef_ctx\<lparr>pc := 0x8C000062, cycle_counter := 8\<rparr>)"
    by code_simp
  have h3: "inner_loop demo_env 3 (locals0, demo_ctx\<lparr>pc := 0x8C00005C\<rparr>) =
     Some (dispatch_insn demo_env (?l, ?c))"
    by code_simp
  from faulting_insn_not_charged [OF h1 h2, where l = ?l and n = 3
      and s = "(locals0, demo_ctx\<lparr>pc := 0x8C00005C\<rparr>)" and k = 0] h1 h2 h3
  show ?thesis by blast
qed

subsection \<open>Timeslices\<close>

text \<open>The inner loop returns normally only with an exhausted budget.\<close>

lemma inner_loop_exhausted:
  "inner_loop E n s = Some (Returned s') \<Longrightarrow> cycle_counter (snd s') \<le> 0"
proof (induction n arbitrary: s)
  case 0
  then show ?case by simp
next
  case (Suc n)
  then show ?case
    by (auto split: outcome.splits if_splits)
qed

text \<open>
  Claim C8, as the code has it. For every timeslice rollover: the inner loop has ended
  with the counter at or below zero, the counter handed on is the value it has at
  exhaustion (at or below zero, just before the refill) plus \<^verbatim>\<open>SH4_TIMESLICE\<close>, the
  timeslice is counted once, and the interrupt and system step is applied exactly once,
  to the refilled context.
\<close>

theorem rollover_adds_quantum:
  assumes "inner_loop E n s = Some (Returned (l1, c1))"
  shows "cycle_counter c1 \<le> 0 \<and>
         timeslice E n s =
           Some (Returned (l1\<lparr>timeslice_count := timeslice_count l1 + 1\<rparr>,
                           UpdateSystem_INTC E
                             (c1\<lparr>cycle_counter := cycle_counter c1 + SH4_TIMESLICE E\<rparr>)))"
  using assms inner_loop_exhausted [OF assms] by (simp add: timeslice_def)

theorem rollover_adds_quantum_witness:
  "inner_loop demo_env 10 (locals0, demo_ctx\<lparr>cycle_counter := 2\<rparr>) =
     Some (Returned (locals0\<lparr>insn_count := 2\<rparr>, demo_ctx\<lparr>pc := 0x8C000004, cycle_counter := 0\<rparr>)) \<and>
   cycle_counter (demo_ctx\<lparr>pc := 0x8C000004, cycle_counter := 0\<rparr>) \<le> 0 \<and>
   timeslice demo_env 10 (locals0, demo_ctx\<lparr>cycle_counter := 2\<rparr>) =
     Some (Returned
       ((locals0\<lparr>insn_count := 2\<rparr>)
          \<lparr>timeslice_count := timeslice_count (locals0\<lparr>insn_count := 2\<rparr>) + 1\<rparr>,
        UpdateSystem_INTC demo_env
          ((demo_ctx\<lparr>pc := 0x8C000004, cycle_counter := 0\<rparr>)
             \<lparr>cycle_counter :=
                cycle_counter (demo_ctx\<lparr>pc := 0x8C000004, cycle_counter := 0\<rparr>) +
                SH4_TIMESLICE demo_env\<rparr>)))"
proof -
  have h: "inner_loop demo_env 10 (locals0, demo_ctx\<lparr>cycle_counter := 2\<rparr>) =
     Some (Returned (locals0\<lparr>insn_count := 2\<rparr>, demo_ctx\<lparr>pc := 0x8C000004, cycle_counter := 0\<rparr>))"
    by code_simp
  from rollover_adds_quantum [OF h] h show ?thesis by blast
qed

text \<open>
  Claim C8 as stated (the counter after the rollover is its value before exhaustion plus
  the quantum) fails: a budget of 2 is used up by two \<^verbatim>\<open>NOP\<close>s, its last value before
  exhaustion is 1, and the counter after the rollover is 448, neither \<open>2 + 448\<close> nor
  \<open>1 + 448\<close>.
\<close>

theorem rollover_from_start_budget:
  "cycle_counter (demo_ctx\<lparr>cycle_counter := 2\<rparr>) = 2 \<and>
   timeslice demo_env 10 (locals0, demo_ctx\<lparr>cycle_counter := 2\<rparr>) =
     Some (Returned
       (\<lparr>insn_count = 2, timeslice_count = 1, exited_via_exception = False\<rparr>,
        \<lparr>pc = 0x8C000004, sr_FD = 0, cycle_counter = 448, CpuRunning = True,
         world = \<lparr>fpu_writes = 0, intc_updates = 1\<rparr>\<rparr>)) \<and>
   (448 :: int) \<noteq> 2 + SH4_TIMESLICE demo_env \<and>
   (448 :: int) \<noteq> 1 + SH4_TIMESLICE demo_env"
  by code_simp

text \<open>
  An instruction that returns is counted once and leaves the timeslice count alone; and a
  budget of \<open>k + 1\<close> cycles is used up by \<open>k + 1\<close> instructions that each return and cost
  one cycle, whatever the rest of the semantics table does.
\<close>

lemma dispatch_insn_Returned_locals:
  "dispatch_insn E s = Returned t \<Longrightarrow>
     insn_count (fst t) = insn_count (fst s) + 1 \<and> timeslice_count (fst t) = timeslice_count (fst s)"
  by (cases s) (auto simp: dispatch_insn_def Let_def split: if_splits outcome.splits)

lemma inner_loop_dispatched:
  "cycle_counter (snd s) = int (Suc k) \<Longrightarrow> dispatched E (Suc k) s = Some s' \<Longrightarrow> Suc k \<le> n \<Longrightarrow>
     inner_loop E n s = Some (Returned s') \<and> cycle_counter (snd s') = 0 \<and>
     insn_count (fst s') = insn_count (fst s) + of_nat (Suc k) \<and>
     timeslice_count (fst s') = timeslice_count (fst s)"
proof (induction k arbitrary: n s)
  case 0
  then obtain n' where n: "n = Suc n'" by (cases n) auto
  from "0.prems"(2) have
    d: "dispatch_insn E s = Returned s'" and cc: "cycle_counter (snd s') = cycle_counter (snd s) - 1"
    by (auto split: outcome.splits if_splits)
  have z: "cycle_counter (snd s') = 0" using cc "0.prems"(1) by simp
  have "inner_loop E n s = Some (Returned s')" using n d z by simp
  with z dispatch_insn_Returned_locals [OF d] show ?case by simp
next
  case (Suc k)
  then obtain n' where n: "n = Suc n'" by (cases n) auto
  from Suc.prems(2) obtain t where
    d: "dispatch_insn E s = Returned t" and cc: "cycle_counter (snd t) = cycle_counter (snd s) - 1"
    and r: "dispatched E (Suc k) t = Some s'"
    by (auto split: outcome.splits if_splits)
  have c1: "cycle_counter (snd t) = int (Suc k)" using cc Suc.prems(1) by simp
  have le: "Suc k \<le> n'" using Suc.prems(3) n by simp
  from Suc.IH [OF c1 r le] have
    ih: "inner_loop E n' t = Some (Returned s')" "cycle_counter (snd s') = 0"
        "insn_count (fst s') = insn_count (fst t) + of_nat (Suc k)"
        "timeslice_count (fst s') = timeslice_count (fst t)"
    by auto
  have "inner_loop E n s = Some (Returned s')"
    using n d c1 ih(1) by simp
  with ih dispatch_insn_Returned_locals [OF d] show ?case
    by (simp add: add.assoc add.commute)
qed

text \<open>
  Claim C5, as the code has it. If the budget starts at 10 and the first 10 dispatched
  instructions each return (no exception) and each cost 1 cycle, then the inner loop ends
  after exactly these 10 instructions with the counter at 0, and the rollover hands on a
  budget of \<^verbatim>\<open>SH4_TIMESLICE\<close> (that is \<open>10 - 10 + SH4_TIMESLICE\<close>), before the 11th
  instruction.
\<close>

theorem budget_after_ten_instructions:
  assumes "cycle_counter c = 10"
    and "dispatched E 10 (l, c) = Some (l', c')"
    and "10 \<le> n"
  shows "inner_loop E n (l, c) = Some (Returned (l', c')) \<and>
         insn_count l' = insn_count l + 10 \<and> cycle_counter c' = 0 \<and>
         timeslice E n (l, c) =
           Some (Returned (l'\<lparr>timeslice_count := timeslice_count l + 1\<rparr>,
                           UpdateSystem_INTC E (c'\<lparr>cycle_counter := SH4_TIMESLICE E\<rparr>)))"
proof -
  have cc: "cycle_counter (snd (l, c)) = int (Suc 9)" using assms(1) by simp
  have d: "dispatched E (Suc 9) (l, c) = Some (l', c')" using assms(2) by simp
  have le: "Suc 9 \<le> n" using assms(3) by simp
  from inner_loop_dispatched [OF cc d le]
  have r: "inner_loop E n (l, c) = Some (Returned (l', c'))" "cycle_counter c' = 0"
    "insn_count l' = insn_count l + of_nat (Suc 9)" "timeslice_count l' = timeslice_count l"
    by auto
  have "timeslice E n (l, c) =
      Some (Returned (l'\<lparr>timeslice_count := timeslice_count l + 1\<rparr>,
                      UpdateSystem_INTC E (c'\<lparr>cycle_counter := SH4_TIMESLICE E\<rparr>)))"
    using r by (simp add: timeslice_def)
  with r show ?thesis by simp
qed

theorem budget_after_ten_instructions_witness:
  "cycle_counter demo_ctx = 10 \<and>
   dispatched demo_env 10 (locals0, demo_ctx) =
     Some (locals0\<lparr>insn_count := 10\<rparr>, demo_ctx\<lparr>pc := 0x8C000014, cycle_counter := 0\<rparr>) \<and>
   (10::nat) \<le> 10 \<and>
   inner_loop demo_env 10 (locals0, demo_ctx) =
     Some (Returned (locals0\<lparr>insn_count := 10\<rparr>, demo_ctx\<lparr>pc := 0x8C000014, cycle_counter := 0\<rparr>)) \<and>
   insn_count (locals0\<lparr>insn_count := 10\<rparr>) = insn_count locals0 + 10 \<and>
   cycle_counter (demo_ctx\<lparr>pc := 0x8C000014, cycle_counter := 0\<rparr>) = 0 \<and>
   timeslice demo_env 10 (locals0, demo_ctx) =
     Some (Returned
       ((locals0\<lparr>insn_count := 10\<rparr>)\<lparr>timeslice_count := timeslice_count locals0 + 1\<rparr>,
        UpdateSystem_INTC demo_env
          ((demo_ctx\<lparr>pc := 0x8C000014, cycle_counter := 0\<rparr>)
             \<lparr>cycle_counter := SH4_TIMESLICE demo_env\<rparr>)))"
proof -
  have h1: "cycle_counter demo_ctx = 10" by (simp add: demo_ctx_def)
  have h2: "dispatched demo_env 10 (locals0, demo_ctx) =
     Some (locals0\<lparr>insn_count := 10\<rparr>, demo_ctx\<lparr>pc := 0x8C000014, cycle_counter := 0\<rparr>)"
    by code_simp
  have h3: "(10::nat) \<le> 10" by simp
  from budget_after_ten_instructions [OF h1 h2 h3] h1 h2 h3
  show ?thesis by blast
qed

text \<open>
  Claim C5 as stated fails: with a timeslice of 448 cycles the budget after the rollover
  is 448, not \<open>10 + 448\<close>. Ten \<^verbatim>\<open>NOP\<close>s were dispatched and the interrupt step ran once.
\<close>

theorem budget_scenario_counterexample:
  "cycle_counter demo_ctx = 10 \<and>
   timeslice demo_env 10 (locals0, demo_ctx) =
     Some (Returned
       (\<lparr>insn_count = 10, timeslice_count = 1, exited_via_exception = False\<rparr>,
        \<lparr>pc = 0x8C000014, sr_FD = 0, cycle_counter = 448, CpuRunning = True,
         world = \<lparr>fpu_writes = 0, intc_updates = 1\<rparr>\<rparr>)) \<and>
   (448 :: int) \<noteq> 10 + SH4_TIMESLICE demo_env"
  by code_simp

subsection \<open>Exceptions and the running flag\<close>

text \<open>
  Claim C3 says that an exception-drain penalty is charged against the cycle budget. The
  handler adds 5 to the counter instead: with the FPU disabled and a floating-point opcode
  at the program counter, a budget of 10 cycles is 15 after the exception has been
  handled (the exception entry of this machine leaves the counter alone), so the
  exception enlarges the budget that the instruction costs are subtracted from. Dispatch
  would resume at \<open>0x8C000100\<close>, the address written by the exception entry.
\<close>

theorem exception_drain_adds_cycles:
  "cycle_counter fpu_ctx = 10 \<and>
   outer_body demo_env 1 (locals0, fpu_ctx) =
     Some (Returned
       (locals0,
        \<lparr>pc = 0x8C000100, sr_FD = 1, cycle_counter = 15, CpuRunning = True,
         world = \<lparr>fpu_writes = 0, intc_updates = 0\<rparr>\<rparr>))"
  by code_simp

text \<open>How a round and the outer loop can end normally.\<close>

lemma outer_body_Returned:
  assumes "outer_body E n s = Some (Returned s')"
  shows "(\<exists>l1 c1. inner_loop E n s = Some (Returned (l1, c1)) \<and> cycle_counter c1 \<le> 0 \<and>
            s' = (l1\<lparr>timeslice_count := timeslice_count l1 + 1\<rparr>,
                  UpdateSystem_INTC E (c1\<lparr>cycle_counter := cycle_counter c1 + SH4_TIMESLICE E\<rparr>))) \<or>
         (\<exists>epc expEvn l1 c1. inner_loop E n s = Some (SH4ThrownException epc expEvn (l1, c1)) \<and>
            s' = (l1, (Do_Exception E epc expEvn c1)
                        \<lparr>cycle_counter := cycle_counter (Do_Exception E epc expEvn c1) + 5\<rparr>))"
proof (cases "inner_loop E n s")
  case None
  with assms show ?thesis by (simp add: outer_body_def timeslice_def)
next
  case (Some r)
  show ?thesis
  proof (cases r)
    case (Returned t)
    obtain l1 c1 where t: "t = (l1, c1)" by (cases t)
    from Some Returned t have il: "inner_loop E n s = Some (Returned (l1, c1))" by simp
    from inner_loop_exhausted [OF il] have "cycle_counter c1 \<le> 0" by simp
    with assms il show ?thesis by (simp add: outer_body_def timeslice_def)
  next
    case (SH4ThrownException epc expEvn t)
    obtain l1 c1 where t: "t = (l1, c1)" by (cases t)
    from Some SH4ThrownException t
    have il: "inner_loop E n s = Some (SH4ThrownException epc expEvn (l1, c1))" by simp
    with assms show ?thesis by (simp add: outer_body_def timeslice_def Let_def)
  next
    case (OtherException t)
    with assms Some show ?thesis by (simp add: outer_body_def timeslice_def)
  qed
qed

lemma outer_loop_Returned:
  "outer_loop E n m s = Some (Returned s') \<Longrightarrow>
     \<not> CpuRunning (snd s') \<and> (\<exists>s0. outer_body E n s0 = Some (Returned s'))"
proof (induction m arbitrary: s)
  case 0
  then show ?case by simp
next
  case (Suc m)
  show ?case
  proof (cases "outer_body E n s")
    case None
    with Suc.prems show ?thesis by simp
  next
    case (Some r)
    show ?thesis
    proof (cases r)
      case (Returned t)
      show ?thesis
      proof (cases "CpuRunning (snd t)")
        case True
        with Suc.prems Some Returned have "outer_loop E n m t = Some (Returned s')" by simp
        then show ?thesis by (rule Suc.IH)
      next
        case False
        with Suc.prems Some Returned have "t = s'" by simp
        with False Some Returned show ?thesis by blast
      qed
    next
      case (SH4ThrownException epc expEvn t)
      with Suc.prems Some show ?thesis by simp
    next
      case (OtherException t)
      with Suc.prems Some show ?thesis by simp
    qed
  qed
qed

text \<open>
  Claim C4, as the code has it. The running flag is read only at the outer loop condition,
  which is reached after a timeslice rollover and also after a processor exception has
  been handled. So when the outer loop ends normally (nothing reaches the catch-all), the
  flag is false and the final state is that of a round which ended either in a rollover
  (the inner loop had run the counter to zero or below) or in the exception handler; and
  a round that ends with the flag false ends the loop at once.
\<close>

theorem running_flag_checked_after_round:
  "(outer_loop E n m s = Some (Returned s') \<longrightarrow>
      \<not> CpuRunning (snd s') \<and>
      (\<exists>s0. outer_body E n s0 = Some (Returned s') \<and>
         ((\<exists>l1 c1. inner_loop E n s0 = Some (Returned (l1, c1)) \<and> cycle_counter c1 \<le> 0 \<and>
             s' = (l1\<lparr>timeslice_count := timeslice_count l1 + 1\<rparr>,
                   UpdateSystem_INTC E
                     (c1\<lparr>cycle_counter := cycle_counter c1 + SH4_TIMESLICE E\<rparr>))) \<or>
          (\<exists>epc expEvn l1 c1.
             inner_loop E n s0 = Some (SH4ThrownException epc expEvn (l1, c1)) \<and>
             s' = (l1, (Do_Exception E epc expEvn c1)
                         \<lparr>cycle_counter := cycle_counter (Do_Exception E epc expEvn c1) + 5\<rparr>))))) \<and>
   (outer_body E n s = Some (Returned t) \<and> \<not> CpuRunning (snd t) \<longrightarrow>
      outer_loop E n (Suc m) s = Some (Returned t))"
proof (intro conjI impI)
  assume a: "outer_loop E n m s = Some (Returned s')"
  from outer_loop_Returned [OF a] show "\<not> CpuRunning (snd s')" by simp
  from outer_loop_Returned [OF a] obtain s0 where b: "outer_body E n s0 = Some (Returned s')"
    by blast
  from b outer_body_Returned [OF b]
  show "\<exists>s0. outer_body E n s0 = Some (Returned s') \<and>
         ((\<exists>l1 c1. inner_loop E n s0 = Some (Returned (l1, c1)) \<and> cycle_counter c1 \<le> 0 \<and>
             s' = (l1\<lparr>timeslice_count := timeslice_count l1 + 1\<rparr>,
                   UpdateSystem_INTC E
                     (c1\<lparr>cycle_counter := cycle_counter c1 + SH4_TIMESLICE E\<rparr>))) \<or>
          (\<exists>epc expEvn l1 c1.
             inner_loop E n s0 = Some (SH4ThrownException epc expEvn (l1, c1)) \<and>
             s' = (l1, (Do_Exception E epc expEvn c1)
                         \<lparr>cycle_counter := cycle_counter (Do_Exception E epc expEvn c1) + 5\<rparr>)))"
    by blast
next
  assume "outer_body E n s = Some (Returned t) \<and> \<not> CpuRunning (snd t)"
  then show "outer_loop E n (Suc m) s = Some (Returned t)" by simp
qed

theorem running_flag_checked_after_round_witness:
  "outer_loop demo_env 2 1 (locals0, halt_ctx) = Some (Returned halt_exit) \<and>
   outer_body demo_env 2 (locals0, halt_ctx) = Some (Returned halt_exit) \<and>
   \<not> CpuRunning (snd halt_exit) \<and>
   (\<exists>s0. outer_body demo_env 2 s0 = Some (Returned halt_exit) \<and>
      ((\<exists>l1 c1. inner_loop demo_env 2 s0 = Some (Returned (l1, c1)) \<and> cycle_counter c1 \<le> 0 \<and>
          halt_exit = (l1\<lparr>timeslice_count := timeslice_count l1 + 1\<rparr>,
                UpdateSystem_INTC demo_env
                  (c1\<lparr>cycle_counter := cycle_counter c1 + SH4_TIMESLICE demo_env\<rparr>))) \<or>
       (\<exists>epc expEvn l1 c1.
          inner_loop demo_env 2 s0 = Some (SH4ThrownException epc expEvn (l1, c1)) \<and>
          halt_exit = (l1, (Do_Exception demo_env epc expEvn c1)
                      \<lparr>cycle_counter := cycle_counter (Do_Exception demo_env epc expEvn c1) + 5\<rparr>)))) \<and>
   outer_loop demo_env 2 (Suc 1) (locals0, halt_ctx) = Some (Returned halt_exit)"
proof -
  have h1: "outer_loop demo_env 2 1 (locals0, halt_ctx) = Some (Returned halt_exit)"
    by code_simp
  have h2: "outer_body demo_env 2 (locals0, halt_ctx) = Some (Returned halt_exit)"
    by code_simp
  have h3: "\<not> CpuRunning (snd halt_exit)"
    by (simp add: halt_exit_def)
  from running_flag_checked_after_round [of demo_env 2 1 "(locals0, halt_ctx)" halt_exit halt_exit]
    h1 h2 h3
  show ?thesis by blast
qed

text \<open>
  Claim C4 as stated (the flag is checked only after a budget-exhaustion event, so the
  loop never exits mid-timeslice) fails: \<^verbatim>\<open>SLEEP\<close> clears the flag with 99 cycles left, the
  next instruction raises the FPU-disabled exception, and the loop ends after the handler
  with 104 cycles left and no rollover.
\<close>

theorem halt_exits_mid_timeslice:
  "mainloop demo_env 2 halt_ctx = Some halt_exit \<and>
   timeslice_count (fst halt_exit) = 0 \<and> 0 < cycle_counter (snd halt_exit)"
  by code_simp

end
